theory Spec2Isabelle
  imports Complex_Main "HOL-Library.Multiset" "HOL-Library.Char_ord" "HOL-Library.List_Lexorder"
begin

section \<open>Collaborative-filtering recommender (src/models/cf.py)\<close>

text \<open>
  The module trains an implicit-feedback recommender.  Its own code is the class
  \<^verbatim>\<open>RecommendationSystem\<close> (\<^verbatim>\<open>__init__\<close>, \<^verbatim>\<open>fit\<close>, \<^verbatim>\<open>recommend\<close>) and the functions
  \<^verbatim>\<open>evaluate_model\<close> and \<^verbatim>\<open>filter_seen_items\<close>.  It calls libraries.  The
  documented behaviour of scikit-learn's \<^verbatim>\<open>LabelEncoder\<close>, of SciPy's \<^verbatim>\<open>csr_matrix\<close>
  and of Python's \<^verbatim>\<open>sorted\<close>, \<^verbatim>\<open>enumerate\<close>, slicing and tuple unpacking is written out
  below.  What the source does not determine is a parameter: the solver of the
  \<^verbatim>\<open>implicit\<close> package (its fit and its \<^verbatim>\<open>recommend\<close>, which differ between releases),
  NumPy's summation of the rows of a matrix, and the arithmetic of the ratings' dtype
  (a type parameter \<open>'v\<close> with its own addition, negation and order).
  Exceptions are values: a computation that can raise returns \<open>error + 'a\<close>.
\<close>

subsection \<open>Exceptions\<close>

datatype error = ValueError | IndexError | TypeError

definition bind :: "error + 'a \<Rightarrow> ('a \<Rightarrow> error + 'b) \<Rightarrow> error + 'b" where
  "bind m f = (case m of Inl e \<Rightarrow> Inl e | Inr v \<Rightarrow> f v)"

subsection \<open>Raw identifiers\<close>

text \<open>
  A column of identifiers read by pandas holds integers or strings.  Python compares an
  integer and a string as unequal, whatever their digits.
\<close>

datatype ident = IntId int | StrId string

text \<open>
  \<^verbatim>\<open>np.unique\<close> needs the values of a column ordered.  Integers are ordered as numbers
  and strings lexicographically by character code.  A column holds values of one kind;
  the order below puts integers before strings only to be total (Python refuses to sort
  a column that mixes them).
\<close>

instantiation ident :: linorder
begin

fun less_eq_ident :: "ident \<Rightarrow> ident \<Rightarrow> bool" where
  "less_eq_ident (IntId a) (IntId b) = (a \<le> b)"
| "less_eq_ident (IntId a) (StrId t) = True"
| "less_eq_ident (StrId s) (IntId b) = False"
| "less_eq_ident (StrId s) (StrId t) = (s \<le> t)"

definition less_ident :: "ident \<Rightarrow> ident \<Rightarrow> bool" where
  "less_ident x y = (x \<le> y \<and> \<not> y \<le> x)"

instance
proof
  fix x y z :: ident
  show "(x < y) = (x \<le> y \<and> \<not> y \<le> x)"
    by (simp add: less_ident_def)
  show "x \<le> x"
    by (cases x) simp_all
  show "x \<le> y \<Longrightarrow> y \<le> z \<Longrightarrow> x \<le> z"
    by (cases x; cases y; cases z) auto
  show "x \<le> y \<Longrightarrow> y \<le> x \<Longrightarrow> x = y"
    by (cases x; cases y) auto
  show "x \<le> y \<or> y \<le> x"
    by (cases x; cases y) auto
qed

end

subsection \<open>sklearn.preprocessing.LabelEncoder\<close>

text \<open>
  \<^verbatim>\<open>fit(y)\<close> stores \<^verbatim>\<open>classes_ = np.unique(y)\<close>: the distinct values in ascending order.
  \<^verbatim>\<open>transform(y)\<close> raises \<^verbatim>\<open>ValueError\<close> when \<^verbatim>\<open>y\<close> holds a value outside \<^verbatim>\<open>classes_\<close>
  and otherwise returns the position of each value in \<^verbatim>\<open>classes_\<close>.
  \<^verbatim>\<open>inverse_transform(y)\<close> raises \<^verbatim>\<open>ValueError\<close> when an index lies outside
  \<^verbatim>\<open>0 .. len(classes_) - 1\<close> and otherwise returns \<^verbatim>\<open>classes_[y]\<close>.
\<close>

record 'a LabelEncoder =
  classes :: "'a list"

definition np_unique :: "'a::linorder list \<Rightarrow> 'a list" where
  "np_unique ys = sort (remdups ys)"

definition LabelEncoder_fit :: "'a::linorder list \<Rightarrow> 'a LabelEncoder" where
  "LabelEncoder_fit ys = \<lparr>classes = np_unique ys\<rparr>"

fun index_of :: "'a list \<Rightarrow> 'a \<Rightarrow> nat" where
  "index_of [] x = 0"
| "index_of (c # cs) x = (if c = x then 0 else Suc (index_of cs x))"

definition transform :: "'a LabelEncoder \<Rightarrow> 'a list \<Rightarrow> error + nat list" where
  "transform enc ys =
     (if set ys \<subseteq> set (classes enc)
      then Inr (map (index_of (classes enc)) ys)
      else Inl ValueError)"

definition inverse_transform :: "'a LabelEncoder \<Rightarrow> nat list \<Rightarrow> error + 'a list" where
  "inverse_transform enc idxs =
     (if list_all (\<lambda>i. i < length (classes enc)) idxs
      then Inr (map (\<lambda>i. classes enc ! i) idxs)
      else Inl ValueError)"

definition fit_transform :: "'a::linorder list \<Rightarrow> 'a LabelEncoder \<times> nat list" where
  "fit_transform ys =
     (let enc = LabelEncoder_fit ys in (enc, map (index_of (classes enc)) ys))"

text \<open>
  The reading of the specification's encoder, for comparison: indices in order of first
  appearance.  \<open>unique\<close> keeps the first occurrence of each value, in input order.
\<close>

definition unique :: "'a list \<Rightarrow> 'a list" where
  "unique ys = rev (remdups (rev ys))"

definition first_appearance_index :: "'a list \<Rightarrow> 'a \<Rightarrow> nat" where
  "first_appearance_index ys x = index_of (unique ys) x"


subsection \<open>Numbers\<close>

text \<open>
  A number the solver returns is an integer (an item index) or a float (a score).  Python
  and NumPy compare the two kinds by value.
\<close>

datatype number = IntVal int | FloatVal real

text \<open>
  The float64 numbers with an integer value below \<open>2^1024\<close>: \<open>F64 a\<close> stands for the
  double \<open>a\<close>.  Addition rounds the exact sum to 53 significant bits, to nearest and
  ties to even; every integer below \<open>2^53\<close> in size is kept as it is.  Negation and
  comparison are exact.
\<close>

datatype f64 = F64 int

fun int_of :: "f64 \<Rightarrow> int" where
  "int_of (F64 a) = a"

fun excess_bits :: "nat \<Rightarrow> nat" where
  "excess_bits n = (if n < 2 ^ 53 then 0 else Suc (excess_bits (n div 2)))"

declare excess_bits.simps [simp del]

definition round53 :: "int \<Rightarrow> int" where
  "round53 x =
     (let e = excess_bits (nat \<bar>x\<bar>); q = x div 2 ^ e; r = x mod 2 ^ e; h = 2 ^ (e - 1)
      in (if r < h \<or> (r = h \<and> even q) then q else q + 1) * 2 ^ e)"

instantiation f64 :: "{plus, zero, uminus, linorder}"
begin

definition plus_f64 :: "f64 \<Rightarrow> f64 \<Rightarrow> f64" where
  "plus_f64 a b = F64 (round53 (int_of a + int_of b))"

definition zero_f64 :: f64 where
  "zero_f64 = F64 0"

definition uminus_f64 :: "f64 \<Rightarrow> f64" where
  "uminus_f64 a = F64 (- int_of a)"

definition less_eq_f64 :: "f64 \<Rightarrow> f64 \<Rightarrow> bool" where
  "less_eq_f64 a b = (int_of a \<le> int_of b)"

definition less_f64 :: "f64 \<Rightarrow> f64 \<Rightarrow> bool" where
  "less_f64 a b = (int_of a < int_of b)"

instance
proof
  fix x y z :: f64
  show "(x < y) = (x \<le> y \<and> \<not> y \<le> x)"
    by (auto simp: less_f64_def less_eq_f64_def)
  show "x \<le> x"
    by (simp add: less_eq_f64_def)
  show "x \<le> y \<Longrightarrow> y \<le> z \<Longrightarrow> x \<le> z"
    by (simp add: less_eq_f64_def)
  show "x \<le> y \<Longrightarrow> y \<le> x \<Longrightarrow> x = y"
    by (cases x; cases y) (simp add: less_eq_f64_def)
  show "x \<le> y \<or> y \<le> x"
    by (auto simp: less_eq_f64_def)
qed

end

subsection \<open>scipy.sparse.csr_matrix\<close>

text \<open>
  \<^verbatim>\<open>csr_matrix((data, (row, col)))\<close> builds the matrix from three aligned arrays.  It
  raises \<^verbatim>\<open>ValueError\<close> when the arrays differ in length or are empty (no shape can be
  inferred); otherwise the shape is one more than the largest row and column index, and
  entries with the same position are added up, one after the other in input order, with
  the addition of the data's dtype.  The matrix is kept as its shape and its stored
  entries; a position that is not stored reads as zero.
\<close>

record 'v csr =
  shape :: "nat \<times> nat"
  stored :: "nat \<times> nat \<Rightarrow> 'v option"

definition add_entry ::
  "nat \<times> nat \<times> 'v::plus \<Rightarrow> (nat \<times> nat \<Rightarrow> 'v option) \<Rightarrow> (nat \<times> nat \<Rightarrow> 'v option)" where
  "add_entry t m =
     (case t of (i, j, v) \<Rightarrow>
        m((i, j) \<mapsto> (case m (i, j) of None \<Rightarrow> v | Some w \<Rightarrow> w + v)))"

definition csr_matrix :: "'v::plus list \<Rightarrow> nat list \<Rightarrow> nat list \<Rightarrow> error + 'v csr" where
  "csr_matrix data row col =
     (if length row = length data \<and> length col = length data
      then (if data = [] then Inl ValueError
            else Inr \<lparr>shape = (Max (set row) + 1, Max (set col) + 1),
                      stored = fold add_entry (zip row (zip col data)) (\<lambda>p. None)\<rparr>)
      else Inl ValueError)"

definition entry :: "'v::zero csr \<Rightarrow> nat \<Rightarrow> nat \<Rightarrow> 'v" where
  "entry M i j = (case stored M (i, j) of None \<Rightarrow> 0 | Some v \<Rightarrow> v)"

text \<open>
  The training matrix of \<^verbatim>\<open>fit\<close>, \<^verbatim>\<open>csr_matrix((ratings, (items, users)))\<close>, as a
  function of the (item index, user index, rating) triples of the table's rows.
\<close>

definition interaction_matrix :: "(nat \<times> nat \<times> 'v::plus) list \<Rightarrow> error + 'v csr" where
  "interaction_matrix ts =
     csr_matrix (map (\<lambda>t. snd (snd t)) ts) (map fst ts) (map (\<lambda>t. fst (snd t)) ts)"

text \<open>The ratings of the triples at one position, and the value a stored cell reads as.\<close>

definition at_pos :: "nat \<times> nat \<Rightarrow> (nat \<times> nat \<times> 'v) list \<Rightarrow> 'v list" where
  "at_pos p ts = map (\<lambda>t. snd (snd t)) (filter (\<lambda>t. (fst t, fst (snd t)) = p) ts)"

definition cell :: "(nat \<times> nat \<Rightarrow> 'v option) \<Rightarrow> nat \<times> nat \<Rightarrow> 'v::zero" where
  "cell m p = (case m p of None \<Rightarrow> 0 | Some v \<Rightarrow> v)"

text \<open>\<^verbatim>\<open>M[i]\<close>: the one-row matrix holding row \<open>i\<close>; \<^verbatim>\<open>IndexError\<close> past the last row.\<close>

definition getrow :: "'v csr \<Rightarrow> nat \<Rightarrow> error + 'v csr" where
  "getrow M i =
     (if i < fst (shape M)
      then Inr \<lparr>shape = (1, snd (shape M)),
                stored = (\<lambda>p. if fst p = 0 then stored M (i, snd p) else None)\<rparr>
      else Inl IndexError)"

text \<open>\<^verbatim>\<open>.indices\<close> of a one-row matrix: the columns of its stored entries.\<close>

definition indices :: "'v csr \<Rightarrow> nat list" where
  "indices R = filter (\<lambda>j. stored R (0, j) \<noteq> None) [0..<snd (shape R)]"

subsection \<open>Python's sorted, enumerate, slicing and unpacking\<close>

text \<open>
  \<^verbatim>\<open>sorted(enumerate(xs), key=lambda x: -x[1])\<close> is a stable sort of the indexed values
  by ascending negated value.  \<^verbatim>\<open>xs[:n]\<close> keeps the first \<open>n\<close> elements for \<open>n \<ge> 0\<close> and
  drops the last \<open>-n\<close> elements for \<open>n < 0\<close>.  \<^verbatim>\<open>for item, _ in recommendations\<close> takes
  the first of two components of each element and raises \<^verbatim>\<open>ValueError\<close> on an element
  that does not have exactly two.
\<close>

definition sorted_desc :: "'v::{uminus, linorder} list \<Rightarrow> (nat \<times> 'v) list" where
  "sorted_desc xs = sort_key (\<lambda>x. - snd x) (enumerate 0 xs)"

definition slice_to :: "'a list \<Rightarrow> int \<Rightarrow> 'a list" where
  "slice_to xs n = (if 0 \<le> n then take (nat n) xs else take (nat (int (length xs) + n)) xs)"

definition first_of_two :: "number list \<Rightarrow> error + number" where
  "first_of_two p = (if length p = 2 then Inr (p ! 0) else Inl ValueError)"

subsection \<open>implicit.als.AlternatingLeastSquares and numpy's row sums\<close>

text \<open>
  The solver object: its configuration and, once fitted, its factor matrices.  The
  numerical fit is the library's: it is the parameter \<open>als_fit\<close> of \<open>fit\<close> below, which
  returns the two factor matrices of one run.
\<close>

record AlternatingLeastSquares =
  factors :: nat
  regularization :: real
  alpha :: real
  iterations :: nat
  random_state :: "nat option"
  user_factors :: "real list list"
  item_factors :: "real list list"

text \<open>
  The two library calls of \<^verbatim>\<open>recommend\<close> and \<^verbatim>\<open>evaluate_model\<close> whose results the source
  does not determine: the solver's
  \<^verbatim>\<open>recommend(userid, user_items, N, filter_already_liked_items)\<close>, which returns
  a sequence of sequences of numbers or raises, and
  \<^verbatim>\<open>np.asarray(M.sum(axis=1)).flatten()\<close>, the sums of the rows of a matrix in its dtype
  (the order in which NumPy adds the entries of a row is its own).
\<close>

record 'v library =
  als_recommend ::
    "AlternatingLeastSquares \<Rightarrow> nat \<Rightarrow> 'v csr \<Rightarrow> int \<Rightarrow> bool \<Rightarrow> error + number list list"
  sum_axis1 :: "'v csr \<Rightarrow> 'v list"

text \<open>One row-sum routine: the stored entries of each row added from left to right.\<close>

definition row_values :: "'v csr \<Rightarrow> nat \<Rightarrow> 'v list" where
  "row_values M i =
     map (\<lambda>j. the (stored M (i, j))) (filter (\<lambda>j. stored M (i, j) \<noteq> None) [0..<snd (shape M)])"

definition row_sums_in_order :: "'v::{plus, zero} csr \<Rightarrow> 'v list" where
  "row_sums_in_order M =
     map (\<lambda>i. case row_values M i of [] \<Rightarrow> 0 | d # ds \<Rightarrow> foldl (+) d ds) [0..<fst (shape M)]"

text \<open>
  The solver's \<^verbatim>\<open>recommend\<close> in the releases before 0.5, which return a list of
  (item, score) pairs and read the liked items from row \<open>userid\<close> of \<open>user_items\<close>:
  \<^verbatim>\<open>
    user = self.user_factors[userid]
    liked = set(user_items[userid].indices) if filter_already_liked_items else set()
    scores = self.item_factors.dot(user)
    count = N + len(liked)
    if count < len(scores):
        ids = np.argpartition(scores, -count)[-count:]
        best = sorted(zip(ids, scores[ids]), key=lambda x: -x[1])
    else:
        best = sorted(enumerate(scores), key=lambda x: -x[1])
    return list(itertools.islice((rec for rec in best if rec[0] not in liked), N))
  \<close>
  \<^verbatim>\<open>islice\<close> raises \<^verbatim>\<open>ValueError\<close> for a negative \<open>N\<close>.  NumPy leaves the order of equal
  scores after \<^verbatim>\<open>argpartition\<close> open; this instance keeps them in index order.
\<close>

definition dot :: "real list \<Rightarrow> real list \<Rightarrow> real" where
  "dot item user = sum_list (map2 (*) item user)"

definition liked_items :: "'v csr \<Rightarrow> nat \<Rightarrow> bool \<Rightarrow> error + nat list" where
  "liked_items user_items userid filter_already_liked_items =
     (if filter_already_liked_items
      then bind (getrow user_items userid) (\<lambda>R. Inr (indices R))
      else Inr [])"

definition model_recommend ::
  "AlternatingLeastSquares \<Rightarrow> nat \<Rightarrow> 'v csr \<Rightarrow> int \<Rightarrow> bool \<Rightarrow> error + number list list" where
  "model_recommend m userid user_items N filter_already_liked_items =
     (if userid < length (user_factors m)
      then bind (liked_items user_items userid filter_already_liked_items) (\<lambda>liked.
        let user = user_factors m ! userid;
            scores = map (\<lambda>item. dot item user) (item_factors m);
            count = N + int (length liked);
            best = (if count < int (length scores)
                    then take (nat count) (sorted_desc scores)
                    else sorted_desc scores)
        in if 0 \<le> N
           then Inr (map (\<lambda>rec. [IntVal (int (fst rec)), FloatVal (snd rec)])
                      (take (nat N) (filter (\<lambda>rec. fst rec \<notin> set liked) best)))
           else Inl ValueError)
      else Inl IndexError)"

definition pairs_release :: "'v::{plus, zero} library" where
  "pairs_release = \<lparr>als_recommend = model_recommend, sum_axis1 = row_sums_in_order\<rparr>"

text \<open>
  The releases that accept \<^verbatim>\<open>alpha\<close> check \<open>user_items\<close> first: with the liked-items
  filter on, \<^verbatim>\<open>recommend\<close> raises \<^verbatim>\<open>ValueError\<close> unless \<open>user_items\<close> has one row for the
  one user asked for.  What they return otherwise is the parameter \<open>inner\<close>.
\<close>

definition one_row_check ::
  "(AlternatingLeastSquares \<Rightarrow> nat \<Rightarrow> 'v csr \<Rightarrow> int \<Rightarrow> bool \<Rightarrow> error + number list list) \<Rightarrow>
   AlternatingLeastSquares \<Rightarrow> nat \<Rightarrow> 'v csr \<Rightarrow> int \<Rightarrow> bool \<Rightarrow> error + number list list" where
  "one_row_check inner m userid user_items N filter_already_liked_items =
     (if filter_already_liked_items
      then (if fst (shape user_items) = 1
            then inner m userid user_items N filter_already_liked_items
            else Inl ValueError)
      else inner m userid user_items N filter_already_liked_items)"

subsection \<open>RecommendationSystem\<close>

text \<open>
  A row of the interaction table: the columns \<^verbatim>\<open>user_id\<close>, \<^verbatim>\<open>parent_asin\<close> and
  \<^verbatim>\<open>rating\<close> (the timestamp column is not read by the code below).
\<close>

record ('u, 'i, 'v) interaction =
  user_id :: 'u
  parent_asin :: 'i
  rating :: 'v

text \<open>
  \<^verbatim>\<open>__init__(factors=100, regularization=0.01, alpha=1.0, iterations=50)\<close> builds the
  solver from these four options and nothing else; the library's \<^verbatim>\<open>random_state\<close>
  keeps its default \<^verbatim>\<open>None\<close>.
\<close>

definition RecommendationSystem_init :: "nat \<Rightarrow> real \<Rightarrow> real \<Rightarrow> nat \<Rightarrow> AlternatingLeastSquares" where
  "RecommendationSystem_init f r a n =
     \<lparr>factors = f, regularization = r, alpha = a, iterations = n, random_state = None,
      user_factors = [], item_factors = []\<rparr>"

definition default_model :: AlternatingLeastSquares where
  "default_model = RecommendationSystem_init 100 (1 / 100) 1 50"

text \<open>The fitted object: the solver, the two encoders and the item-by-user matrix.\<close>

record ('u, 'i, 'v) RecommendationSystem =
  model :: AlternatingLeastSquares
  user_encoder :: "'u LabelEncoder"
  item_encoder :: "'i LabelEncoder"
  item_user_data :: "'v csr"

definition fit ::
  "(AlternatingLeastSquares \<Rightarrow> 'v csr \<Rightarrow> error + real list list \<times> real list list) \<Rightarrow>
   AlternatingLeastSquares \<Rightarrow> ('u::linorder, 'i::linorder, 'v::plus) interaction list \<Rightarrow>
   error + ('u, 'i, 'v) RecommendationSystem" where
  "fit als_fit m df =
     (let (uenc, users) = fit_transform (map user_id df);
          (ienc, items) = fit_transform (map parent_asin df);
          ratings = map rating df
      in bind (csr_matrix ratings items users) (\<lambda>M.
         bind (als_fit m M) (\<lambda>fs.
           Inr \<lparr>model = m\<lparr>user_factors := fst fs, item_factors := snd fs\<rparr>,
                user_encoder = uenc, item_encoder = ienc, item_user_data = M\<rparr>)))"

text \<open>
  \<^verbatim>\<open>self.item_encoder.inverse_transform([item])[0]\<close> for a number \<open>item\<close>: an integer in
  range is decoded, an integer out of range is an unseen label (\<^verbatim>\<open>ValueError\<close>); a
  float is an unseen label unless it is a whole number in range, which passes the check
  for unseen labels and is then refused as an index (\<^verbatim>\<open>TypeError\<close>; \<^verbatim>\<open>IndexError\<close> in
  releases that index \<^verbatim>\<open>classes_[y]\<close> directly).
\<close>

definition decode_item :: "'i LabelEncoder \<Rightarrow> number \<Rightarrow> error + 'i" where
  "decode_item enc item =
     (case item of
        IntVal i \<Rightarrow>
          (if 0 \<le> i then bind (inverse_transform enc [nat i]) (\<lambda>ids. Inr (ids ! 0))
           else Inl ValueError)
      | FloatVal x \<Rightarrow>
          (if x = of_int \<lfloor>x\<rfloor> \<and> 0 \<le> x \<and> x < real (length (classes enc))
           then Inl TypeError else Inl ValueError))"

text \<open>
  The list comprehension of \<^verbatim>\<open>recommend\<close>,
  \<^verbatim>\<open>[self.item_encoder.inverse_transform([item])[0] for item, _ in recommendations]\<close>: each
  element is unpacked and decoded in turn.
\<close>

fun decode :: "'i LabelEncoder \<Rightarrow> (error + number) list \<Rightarrow> error + 'i list" where
  "decode enc [] = Inr []"
| "decode enc (rec # recs) =
     bind rec (\<lambda>item.
     bind (decode_item enc item) (\<lambda>x.
     bind (decode enc recs) (\<lambda>tl. Inr (x # tl))))"

text \<open>The popularity branch: \<^verbatim>\<open>sorted(enumerate(item_popularity), ...)[:n]\<close>.\<close>

definition popular ::
  "'v::{uminus, linorder} library \<Rightarrow> ('u, 'i, 'v) RecommendationSystem \<Rightarrow> int \<Rightarrow> (nat \<times> 'v) list" where
  "popular L st n = slice_to (sorted_desc (sum_axis1 L (item_user_data st))) n"

definition unpacked :: "(nat \<times> 'v) list \<Rightarrow> (error + number) list" where
  "unpacked recs = map (\<lambda>rec. Inr (IntVal (int (fst rec)))) recs"

text \<open>
  \<^verbatim>\<open>recommend\<close>: both the encoder lookup and the solver's call are inside the
  \<^verbatim>\<open>try\<close>; \<^verbatim>\<open>except ValueError\<close> replaces either failure by the popularity ranking and
  lets every other exception through.  The list comprehension is outside the \<^verbatim>\<open>try\<close>.
\<close>

definition recommend ::
  "'v::{uminus, linorder} library \<Rightarrow> ('u, 'i, 'v) RecommendationSystem \<Rightarrow> 'u \<Rightarrow> int \<Rightarrow>
   error + 'i list" where
  "recommend L st uid n =
     (case bind (transform (user_encoder st) [uid]) (\<lambda>idxs.
             als_recommend L (model st) (idxs ! 0) (item_user_data st) n True) of
        Inl ValueError \<Rightarrow> decode (item_encoder st) (unpacked (popular L st n))
      | Inl e \<Rightarrow> Inl e
      | Inr recommendations \<Rightarrow> decode (item_encoder st) (map first_of_two recommendations))"

text \<open>Whether a call of \<^verbatim>\<open>recommend\<close> runs the \<^verbatim>\<open>except\<close> branch.\<close>

definition takes_fallback ::
  "'v library \<Rightarrow> ('u, 'i, 'v) RecommendationSystem \<Rightarrow> 'u \<Rightarrow> int \<Rightarrow> bool" where
  "takes_fallback L st uid n =
     (bind (transform (user_encoder st) [uid]) (\<lambda>idxs.
        als_recommend L (model st) (idxs ! 0) (item_user_data st) n True) = Inl ValueError)"

definition train_model ::
  "(AlternatingLeastSquares \<Rightarrow> 'v csr \<Rightarrow> error + real list list \<times> real list list) \<Rightarrow>
   ('u::linorder, 'i::linorder, 'v::plus) interaction list \<Rightarrow>
   error + ('u, 'i, 'v) RecommendationSystem" where
  "train_model als_fit train_df = fit als_fit default_model train_df"

subsection \<open>evaluate_model and filter_seen_items\<close>

definition filter_seen_items ::
  "('u, 'i, 'v) interaction list \<Rightarrow> ('u, 'i, 'v) interaction list \<Rightarrow>
   ('u, 'i, 'v) interaction list" where
  "filter_seen_items train_df test_df =
     filter (\<lambda>r. parent_asin r \<in> set (map parent_asin train_df)) test_df"

text \<open>
  The held-out matrix of \<^verbatim>\<open>evaluate_model\<close>: the row indices are the encoded users and
  the column indices the encoded items.
\<close>

definition test_user_item ::
  "('u, 'i, 'v) RecommendationSystem \<Rightarrow> ('u, 'i, 'v::plus) interaction list \<Rightarrow> error + 'v csr" where
  "test_user_item st test_df =
     bind (transform (user_encoder st) (map user_id test_df)) (\<lambda>users.
     bind (transform (item_encoder st) (map parent_asin test_df)) (\<lambda>items.
       csr_matrix (map rating test_df) users items))"

text \<open>
  \<^verbatim>\<open>[item for item, _ in recs]\<close>, and the loop over \<^verbatim>\<open>user_ids\<close> that fills
  \<^verbatim>\<open>all_recommendations\<close>.
\<close>

fun sequence :: "(error + 'a) list \<Rightarrow> error + 'a list" where
  "sequence [] = Inr []"
| "sequence (m # ms) = bind m (\<lambda>v. bind (sequence ms) (\<lambda>vs. Inr (v # vs)))"

fun all_recommendations ::
  "'v library \<Rightarrow> ('u, 'i, 'v) RecommendationSystem \<Rightarrow> int \<Rightarrow> 'u list \<Rightarrow>
   error + number list list" where
  "all_recommendations L st k [] = Inr []"
| "all_recommendations L st k (uid # uids) =
     bind (transform (user_encoder st) [uid]) (\<lambda>idxs.
     bind (getrow (item_user_data st) (idxs ! 0)) (\<lambda>user_items.
     bind (als_recommend L (model st) (idxs ! 0) user_items k False) (\<lambda>recs.
     bind (sequence (map first_of_two recs)) (\<lambda>items.
     bind (all_recommendations L st k uids) (\<lambda>tl.
       Inr (items # tl))))))"

text \<open>
  \<^verbatim>\<open>model.item_encoder.transform([item])[0] if item in model.item_encoder.classes_ else -1\<close>,
  where \<^verbatim>\<open>item\<close> is a number the solver returned.  \<open>as_ident\<close> is the raw identifier a
  number is equal to, if any: an integer, never a string.
\<close>

fun as_ident :: "number \<Rightarrow> ident option" where
  "as_ident (IntVal i) = Some (IntId i)"
| "as_ident (FloatVal x) = (if x = of_int \<lfloor>x\<rfloor> then Some (IntId \<lfloor>x\<rfloor>) else None)"

definition recommendation_id :: "ident LabelEncoder \<Rightarrow> number \<Rightarrow> error + int" where
  "recommendation_id enc item =
     (case as_ident item of
        None \<Rightarrow> Inr (- 1)
      | Some c \<Rightarrow>
          (if c \<in> set (classes enc)
           then bind (transform enc [c]) (\<lambda>idxs. Inr (int (idxs ! 0)))
           else Inr (- 1)))"

definition all_recommendations_ids ::
  "ident LabelEncoder \<Rightarrow> number list list \<Rightarrow> error + int list list" where
  "all_recommendations_ids enc recs =
     sequence (map (\<lambda>user_recs. sequence (map (recommendation_id enc) user_recs)) recs)"

text \<open>
  What \<^verbatim>\<open>evaluate_model\<close> hands to each of the three metric functions: the held-out
  matrix, the converted recommendation lists and the encoded users.
\<close>

definition metric_inputs ::
  "'v::plus library \<Rightarrow> ('u, ident, 'v) RecommendationSystem \<Rightarrow> ('u, ident, 'v) interaction list \<Rightarrow>
   int \<Rightarrow> error + 'v csr \<times> int list list \<times> nat list" where
  "metric_inputs L st test_df k =
     bind (test_user_item st test_df) (\<lambda>T.
     let user_ids = unique (map user_id test_df) in
     bind (transform (user_encoder st) user_ids) (\<lambda>user_idxs.
     bind (all_recommendations L st k user_ids) (\<lambda>recs.
     bind (all_recommendations_ids (item_encoder st) recs) (\<lambda>ids.
       Inr (T, ids, user_idxs)))))"

text \<open>
  The metric functions are the library's; \<^verbatim>\<open>evaluate_model\<close> calls them in this order
  and returns the three values.
\<close>

type_synonym 'v metric = "'v csr \<Rightarrow> int list list \<Rightarrow> nat list \<Rightarrow> int \<Rightarrow> error + real"

record report =
  precision :: real
  map_score :: real
  ndcg :: real

definition evaluate_model ::
  "'v metric \<Rightarrow> 'v metric \<Rightarrow> 'v metric \<Rightarrow> 'v::plus library \<Rightarrow>
   ('u, ident, 'v) RecommendationSystem \<Rightarrow> ('u, ident, 'v) interaction list \<Rightarrow> int \<Rightarrow>
   error + report" where
  "evaluate_model precision_at_k mean_average_precision_at_k ndcg_at_k L st test_df k =
     bind (metric_inputs L st test_df k) (\<lambda>inp.
     case inp of (T, ids, user_idxs) \<Rightarrow>
     bind (precision_at_k T ids user_idxs k) (\<lambda>p.
     bind (mean_average_precision_at_k T ids user_idxs k) (\<lambda>m.
     bind (ndcg_at_k T ids user_idxs k) (\<lambda>g.
       Inr \<lparr>precision = p, map_score = m, ndcg = g\<rparr>))))"

subsection \<open>Notions used to state the properties\<close>

text \<open>
  The rows of the training table as (item index, user index, rating) triples, and the
  order of a ranking by weights \<open>w\<close>: a heavier item first, and of two items of equal
  weight the one with the smaller index.
\<close>

definition triples ::
  "('u::linorder, 'i::linorder, 'v) interaction list \<Rightarrow> (nat \<times> nat \<times> 'v) list" where
  "triples df =
     map (\<lambda>r. (index_of (np_unique (map parent_asin df)) (parent_asin r),
               index_of (np_unique (map user_id df)) (user_id r), rating r)) df"




text \<open>
  What a recommended number becomes on its way to the metric functions: the values of
  \<open>recommendation_id\<close>, which never raises.
\<close>

definition handed :: "ident LabelEncoder \<Rightarrow> number \<Rightarrow> int" where
  "handed enc item =
     (case as_ident item of
        None \<Rightarrow> - 1
      | Some c \<Rightarrow> (if c \<in> set (classes enc) then int (index_of (classes enc) c) else - 1))"

subsection \<open>Example data\<close>

text \<open>
  A stand-in for the solver's fit, of the right shape for any matrix: one-dimensional
  factors, all ones; and a second run whose factors are all twos.  Tables: the
  specification's scenario, two users sharing an item, two users and a single item, one
  held-out row, the scenario with its items as string identifiers, and float64 ratings
  whose sums round.
\<close>

definition example_fit ::
  "AlternatingLeastSquares \<Rightarrow> 'v csr \<Rightarrow> error + real list list \<times> real list list" where
  "example_fit m M = Inr (replicate (snd (shape M)) [1], replicate (fst (shape M)) [1])"

definition second_fit ::
  "AlternatingLeastSquares \<Rightarrow> 'v csr \<Rightarrow> error + real list list \<times> real list list" where
  "second_fit m M = Inr (replicate (snd (shape M)) [2], replicate (fst (shape M)) [2])"

definition scenario :: "(string, string, real) interaction list" where
  "scenario =
     [\<lparr>user_id = ''u1'', parent_asin = ''i1'', rating = 5\<rparr>,
      \<lparr>user_id = ''u1'', parent_asin = ''i2'', rating = 3\<rparr>,
      \<lparr>user_id = ''u2'', parent_asin = ''i1'', rating = 4\<rparr>,
      \<lparr>user_id = ''u3'', parent_asin = ''i3'', rating = 2\<rparr>]"

definition shared_item :: "(string, string, real) interaction list" where
  "shared_item =
     [\<lparr>user_id = ''a'', parent_asin = ''x'', rating = 1\<rparr>,
      \<lparr>user_id = ''b'', parent_asin = ''x'', rating = 1\<rparr>,
      \<lparr>user_id = ''b'', parent_asin = ''y'', rating = 1\<rparr>]"

definition one_item :: "(string, string, real) interaction list" where
  "one_item =
     [\<lparr>user_id = ''a'', parent_asin = ''x'', rating = 1\<rparr>,
      \<lparr>user_id = ''b'', parent_asin = ''x'', rating = 2\<rparr>]"


definition scenario_ids :: "(string, ident, real) interaction list" where
  "scenario_ids =
     map (\<lambda>r. \<lparr>user_id = user_id r, parent_asin = StrId (parent_asin r), rating = rating r\<rparr>)
       scenario"

definition heldout_ids :: "(string, ident, real) interaction list" where
  "heldout_ids =
     [\<lparr>user_id = ''u1'', parent_asin = StrId ''i3'', rating = 1\<rparr>,
      \<lparr>user_id = ''u9'', parent_asin = StrId ''i1'', rating = 4\<rparr>,
      \<lparr>user_id = ''u2'', parent_asin = StrId ''i7'', rating = 2\<rparr>]"

definition heldout_seen :: "(string, ident, real) interaction list" where
  "heldout_seen = [\<lparr>user_id = ''u1'', parent_asin = StrId ''i3'', rating = 1\<rparr>]"


definition no_metric :: "'v metric" where
  "no_metric T ids user_idxs k = Inr 0"

section \<open>Properties of the encoder\<close>

lemma np_unique_sorted: "sorted (np_unique ys)"
  by (simp add: np_unique_def)

lemma np_unique_distinct: "distinct (np_unique ys)"
  by (simp add: np_unique_def)

lemma np_unique_set: "set (np_unique ys) = set ys"
  by (simp add: np_unique_def)

lemma index_of_less: "x \<in> set cs \<Longrightarrow> index_of cs x < length cs"
  by (induction cs) auto

lemma index_of_nth: "x \<in> set cs \<Longrightarrow> cs ! index_of cs x = x"
  by (induction cs) auto

lemma index_of_rank:
  "sorted cs \<Longrightarrow> distinct cs \<Longrightarrow> x \<in> set cs \<Longrightarrow> index_of cs x = card {y \<in> set cs. y < x}"
proof (induction cs)
  case Nil
  then show ?case by simp
next
  case (Cons c cs)
  show ?case
  proof (cases "c = x")
    case True
    have "{y \<in> set (c # cs). y < x} = {}"
      using Cons.prems(1) True by auto
    then show ?thesis using True by simp
  next
    case False
    then have xin: "x \<in> set cs" using Cons.prems(3) by simp
    then have lt: "c < x" using Cons.prems(1) False by auto
    have fin: "finite {y \<in> set cs. y < x}" by simp
    have notin: "c \<notin> {y \<in> set cs. y < x}" using Cons.prems(2) by simp
    have "{y \<in> set (c # cs). y < x} = insert c {y \<in> set cs. y < x}"
      using lt by auto
    then have "card {y \<in> set (c # cs). y < x} = Suc (card {y \<in> set cs. y < x})"
      using fin notin by simp
    moreover have "index_of cs x = card {y \<in> set cs. y < x}"
      using Cons.IH Cons.prems(1,2) xin by simp
    ultimately show ?thesis using False by simp
  qed
qed

lemma index_of_nth_distinct: "distinct cs \<Longrightarrow> i < length cs \<Longrightarrow> index_of cs (cs ! i) = i"
proof (induction cs arbitrary: i)
  case Nil
  then show ?case by simp
next
  case (Cons c cs)
  then show ?case by (cases i) auto
qed

lemma index_of_image: "distinct cs \<Longrightarrow> index_of cs ` set cs = {..<length cs}"
proof (intro equalityI subsetI)
  fix i assume "i \<in> index_of cs ` set cs"
  then show "i \<in> {..<length cs}" by (auto simp: index_of_less)
next
  fix i assume d: "distinct cs" and "i \<in> {..<length cs}"
  then have i: "i < length cs" by simp
  then have "cs ! i \<in> set cs" by simp
  moreover have "index_of cs (cs ! i) = i" using d i by (rule index_of_nth_distinct)
  ultimately show "i \<in> index_of cs ` set cs" by force
qed

lemma Max_index_of:
  assumes "distinct cs" "set xs = set cs" "xs \<noteq> []"
  shows "Max (set (map (index_of cs) xs)) + 1 = length cs"
proof -
  have "set (map (index_of cs) xs) = {..<length cs}"
    using assms(1,2) by (simp add: index_of_image)
  moreover have "cs \<noteq> []" using assms(2,3) by auto
  then obtain k where k: "length cs = Suc k" by (cases cs) auto
  moreover have "Max {..k} = k"
    by (intro Max_eqI) auto
  ultimately have "Max (set (map (index_of cs) xs)) = k"
    by (simp add: lessThan_Suc_atMost)
  then show ?thesis using k by simp
qed

text \<open>
  C5 (as the code has it).  \<^verbatim>\<open>LabelEncoder.fit\<close> numbers the distinct values in ascending
  order of the values, not in order of first appearance: the classes are sorted and
  distinct, they are exactly the values seen, and the index of a seen value is the number
  of distinct seen values smaller than it.
\<close>

theorem LabelEncoder_fit_sorted_rank:
  "sorted (classes (LabelEncoder_fit ys)) \<and>
   distinct (classes (LabelEncoder_fit ys)) \<and>
   set (classes (LabelEncoder_fit ys)) = set ys \<and>
   (\<forall>x \<in> set ys. transform (LabelEncoder_fit ys) [x] = Inr [card {y \<in> set ys. y < x}])"
proof -
  have "transform (LabelEncoder_fit ys) [x] = Inr [card {y \<in> set ys. y < x}]"
    if "x \<in> set ys" for x
  proof -
    have "index_of (np_unique ys) x = card {y \<in> set (np_unique ys). y < x}"
      using that by (intro index_of_rank) (simp_all add: np_unique_sorted np_unique_distinct np_unique_set)
    then show ?thesis
      using that by (simp add: transform_def LabelEncoder_fit_def np_unique_set)
  qed
  then show ?thesis
    by (simp add: LabelEncoder_fit_def np_unique_sorted np_unique_distinct np_unique_set)
qed

theorem LabelEncoder_fit_sorted_rank_witness:
  "transform (LabelEncoder_fit [''b'', ''a'', ''b'']) [''b''] = Inr [1] \<and>
   transform (LabelEncoder_fit [''b'', ''a'', ''b'']) [''a''] = Inr [0] \<and>
   classes (LabelEncoder_fit [''b'', ''a'', ''b'']) = [''a'', ''b'']"
proof -
  let ?ys = "[''b'', ''a'', ''b'']"
  have q: "\<forall>x \<in> set ?ys. transform (LabelEncoder_fit ?ys) [x] = Inr [card {y \<in> set ?ys. y < x}]"
    using LabelEncoder_fit_sorted_rank [of ?ys] by blast
  have s: "{y \<in> set ?ys. y < ''b''} = {''a''}"
    by auto
  have t: "{y \<in> set ?ys. y < ''a''} = {}"
    by auto
  have b: "transform (LabelEncoder_fit ?ys) [''b''] = Inr [card {y \<in> set ?ys. y < ''b''}]"
    by (rule bspec [OF q]) simp
  have a: "transform (LabelEncoder_fit ?ys) [''a''] = Inr [card {y \<in> set ?ys. y < ''a''}]"
    by (rule bspec [OF q]) simp
  have c: "classes (LabelEncoder_fit ?ys) = [''a'', ''b'']"
    by (simp add: LabelEncoder_fit_def np_unique_def)
  show ?thesis
    unfolding a b c s t by simp
qed

text \<open>
  C5 (as the specification words it) fails: fitted on \<open>b, a\<close> the encoder gives \<open>b\<close> the
  index 1, while \<open>b\<close> is the first value to appear.
\<close>

theorem LabelEncoder_fit_first_appearance_counterexample:
  "first_appearance_index [''b'', ''a''] ''b'' = 0 \<and>
   transform (LabelEncoder_fit [''b'', ''a'']) [''b''] = Inr [1]"
  by (simp add: first_appearance_index_def unique_def transform_def LabelEncoder_fit_def
      np_unique_def)

text \<open>
  C6.  Round trip: for a value seen during fit, \<^verbatim>\<open>transform\<close> succeeds and
  \<^verbatim>\<open>inverse_transform\<close> of its result returns the value.
\<close>

theorem LabelEncoder_round_trip:
  "x \<in> set ys \<Longrightarrow>
   \<exists>i. transform (LabelEncoder_fit ys) [x] = Inr [i] \<and>
       inverse_transform (LabelEncoder_fit ys) [i] = Inr [x]"
  by (simp add: transform_def inverse_transform_def LabelEncoder_fit_def np_unique_set
      index_of_less index_of_nth)

theorem LabelEncoder_round_trip_witness:
  "bind (transform (LabelEncoder_fit [''u2'', ''u1'', ''u2'']) [''u2''])
        (inverse_transform (LabelEncoder_fit [''u2'', ''u1'', ''u2''])) = Inr [''u2'']"
proof -
  have "''u2'' \<in> set [''u2'', ''u1'', ''u2'']" by simp
  from LabelEncoder_round_trip [OF this] show ?thesis
    by (auto simp: bind_def)
qed

section \<open>Properties of the interaction matrix\<close>


lemma add_entry_other: "p \<noteq> (i, j) \<Longrightarrow> add_entry (i, j, v) m p = m p"
  by (simp add: add_entry_def)

lemma at_pos_Cons:
  "at_pos p ((i, j, v) # ts) = (if (i, j) = p then v # at_pos p ts else at_pos p ts)"
  by (simp add: at_pos_def)


lemma zip_triples: "zip (map fst ts) (zip (map (\<lambda>t. fst (snd t)) ts) (map (\<lambda>t. snd (snd t)) ts)) = ts"
  by (induction ts) auto

lemma at_pos_mset: "mset ts' = mset ts \<Longrightarrow> mset (at_pos p ts') = mset (at_pos p ts)"
  by (simp add: at_pos_def)


subsection \<open>Float64 ratings\<close>

lemma F64_int_of: "F64 (int_of a) = a"
  by (cases a) simp

lemma round53_exact: "\<bar>x\<bar> < 2 ^ 53 \<Longrightarrow> round53 x = x"
proof -
  assume a: "\<bar>x\<bar> < 2 ^ 53"
  then have "nat \<bar>x\<bar> < 2 ^ 53"
    by (simp add: nat_less_iff)
  then have "excess_bits (nat \<bar>x\<bar>) = 0"
    by (subst excess_bits.simps) simp
  then show ?thesis
    by (simp add: round53_def)
qed

lemma f64_add_exact:
  "0 \<le> int_of a \<Longrightarrow> 0 \<le> int_of b \<Longrightarrow> int_of a + int_of b < 2 ^ 53 \<Longrightarrow>
   a + b = F64 (int_of a + int_of b)"
  by (simp add: plus_f64_def round53_exact)

lemma f64_cell_None: "m p = None \<Longrightarrow> int_of (cell m p) = 0"
  by (simp add: cell_def zero_f64_def)

lemma at_pos_sum_le:
  fixes ts :: "(nat \<times> nat \<times> f64) list"
  assumes "\<forall>t \<in> set ts. 0 \<le> int_of (snd (snd t))"
  shows "sum_list (map int_of (at_pos p ts)) \<le> sum_list (map (\<lambda>t. int_of (snd (snd t))) ts)"
  using assms by (induction ts) (auto simp: at_pos_def)

lemma at_pos_sum_nonneg:
  fixes ts :: "(nat \<times> nat \<times> f64) list"
  assumes "\<forall>t \<in> set ts. 0 \<le> int_of (snd (snd t))"
  shows "0 \<le> sum_list (map int_of (at_pos p ts))"
  using assms by (induction ts) (auto simp: at_pos_def)

lemma fold_add_entry_f64:
  fixes m :: "nat \<times> nat \<Rightarrow> f64 option"
  assumes "\<forall>t \<in> set ts. 0 \<le> int_of (snd (snd t))"
    and "0 \<le> int_of (cell m p)"
    and "int_of (cell m p) + sum_list (map int_of (at_pos p ts)) < 2 ^ 53"
  shows "fold add_entry ts m p =
     (if at_pos p ts = [] then m p
      else Some (F64 (int_of (cell m p) + sum_list (map int_of (at_pos p ts)))))"
  using assms
proof (induction ts arbitrary: m)
  case Nil
  then show ?case by (simp add: at_pos_def)
next
  case (Cons t ts)
  obtain i j v where t: "t = (i, j, v)" by (cases t) auto
  have v: "0 \<le> int_of v" using Cons.prems(1) t by simp
  have rest: "\<forall>t \<in> set ts. 0 \<le> int_of (snd (snd t))" using Cons.prems(1) by simp
  have nn: "0 \<le> sum_list (map int_of (at_pos p ts))"
    using rest by (rule at_pos_sum_nonneg)
  have step: "fold add_entry (t # ts) m p = fold add_entry ts (add_entry (i, j, v) m) p"
    by (simp add: t)
  show ?case
  proof (cases "(i, j) = p")
    case True
    have bound: "int_of (cell m p) + (int_of v + sum_list (map int_of (at_pos p ts))) < 2 ^ 53"
      using Cons.prems(3) True by (simp add: t at_pos_Cons)
    have here: "add_entry (i, j, v) m p = Some (F64 (int_of (cell m p) + int_of v))"
    proof (cases "m p")
      case None
      then show ?thesis
        using True by (auto simp: add_entry_def cell_def zero_f64_def F64_int_of)
    next
      case (Some w)
      have "w + v = F64 (int_of w + int_of v)"
        using Cons.prems(2) Some v bound nn by (intro f64_add_exact) (simp_all add: cell_def)
      then show ?thesis
        using True Some by (auto simp: add_entry_def cell_def)
    qed
    then have c: "int_of (cell (add_entry (i, j, v) m) p) = int_of (cell m p) + int_of v"
      by (simp add: cell_def)
    have "fold add_entry ts (add_entry (i, j, v) m) p =
       (if at_pos p ts = [] then add_entry (i, j, v) m p
        else Some (F64 (int_of (cell (add_entry (i, j, v) m) p) + sum_list (map int_of (at_pos p ts)))))"
      using rest Cons.prems(2) v bound by (intro Cons.IH) (simp_all add: c)
    then show ?thesis
      unfolding step using True by (simp add: t at_pos_Cons c here add.assoc)
  next
    case False
    then have here: "add_entry (i, j, v) m p = m p"
      using add_entry_other [of p i j v m] by auto
    then have c: "cell (add_entry (i, j, v) m) p = cell m p"
      by (simp add: cell_def)
    have "fold add_entry ts (add_entry (i, j, v) m) p =
       (if at_pos p ts = [] then add_entry (i, j, v) m p
        else Some (F64 (int_of (cell (add_entry (i, j, v) m) p) + sum_list (map int_of (at_pos p ts)))))"
      using rest Cons.prems(2,3) False by (intro Cons.IH) (simp_all add: c t at_pos_Cons)
    then show ?thesis
      unfolding step using False by (simp add: t at_pos_Cons c here)
  qed
qed

lemma stored_f64:
  fixes ts :: "(nat \<times> nat \<times> f64) list"
  assumes nn: "\<forall>t \<in> set ts. 0 \<le> int_of (snd (snd t))"
    and tot: "sum_list (map (\<lambda>t. int_of (snd (snd t))) ts) < 2 ^ 53"
  shows "fold add_entry ts (\<lambda>p. None) p =
     (if at_pos p ts = [] then None else Some (F64 (sum_list (map int_of (at_pos p ts)))))"
proof -
  have "sum_list (map int_of (at_pos p ts)) < 2 ^ 53"
    using at_pos_sum_le [OF nn, of p] tot by simp
  then have "fold add_entry ts (\<lambda>p. None) p =
     (if at_pos p ts = [] then None
      else Some (F64 (int_of (cell (\<lambda>p. None) p) + sum_list (map int_of (at_pos p ts)))))"
    using nn by (intro fold_add_entry_f64) (simp_all add: f64_cell_None)
  then show ?thesis
    by (simp add: f64_cell_None)
qed

text \<open>
  C4 (as the code has it).  For a non-empty list of (item index, user index, rating)
  triples whose float64 ratings are non-negative whole numbers with a total below
  \<open>2^53\<close>, so that no addition rounds, the matrix is built, holds at every position the
  sum of the ratings of the triples with that position, and is the same matrix for any
  reordering of the triples.
\<close>

theorem interaction_matrix_exact_sums:
  fixes ts :: "(nat \<times> nat \<times> f64) list"
  assumes ne: "ts \<noteq> []"
    and nn: "\<forall>t \<in> set ts. 0 \<le> int_of (snd (snd t))"
    and tot: "sum_list (map (\<lambda>t. int_of (snd (snd t))) ts) < 2 ^ 53"
  shows "\<exists>M. interaction_matrix ts = Inr M \<and>
           (\<forall>i u. entry M i u = F64 (sum_list (map int_of (at_pos (i, u) ts)))) \<and>
           (\<forall>ts'. mset ts' = mset ts \<longrightarrow> interaction_matrix ts' = Inr M)"
proof -
  let ?M = "\<lparr>shape = (Max (set (map fst ts)) + 1, Max (set (map (\<lambda>t. fst (snd t)) ts)) + 1),
             stored = fold add_entry ts (\<lambda>p. None)\<rparr>"
  have M: "interaction_matrix ts = Inr ?M"
    using ne by (simp add: interaction_matrix_def csr_matrix_def zip_triples)
  have e: "entry ?M i u = F64 (sum_list (map int_of (at_pos (i, u) ts)))" for i u
    by (simp add: entry_def stored_f64 [OF nn tot] zero_f64_def)
  have p: "interaction_matrix ts' = Inr ?M" if q: "mset ts' = mset ts" for ts'
  proof -
    have s: "set ts' = set ts" using q by (rule mset_eq_setD)
    have ne': "ts' \<noteq> []" using s ne by auto
    have nn': "\<forall>t \<in> set ts'. 0 \<le> int_of (snd (snd t))" using nn s by simp
    have "sum_list (map (\<lambda>t. int_of (snd (snd t))) ts') = sum_list (map (\<lambda>t. int_of (snd (snd t))) ts)"
      using q by (metis mset_map sum_mset_sum_list)
    then have tot': "sum_list (map (\<lambda>t. int_of (snd (snd t))) ts') < 2 ^ 53"
      using tot by simp
    have a: "mset (at_pos x ts') = mset (at_pos x ts)" for x
      using q by (rule at_pos_mset)
    have a1: "(at_pos x ts' = []) = (at_pos x ts = [])" for x
      using a [of x] by (metis mset_zero_iff)
    have a2: "sum_list (map int_of (at_pos x ts')) = sum_list (map int_of (at_pos x ts))" for x
      using a [of x] by (metis mset_map sum_mset_sum_list)
    have f: "fold add_entry ts' (\<lambda>p. None) = fold add_entry ts (\<lambda>p. None)"
      by (rule ext) (simp add: stored_f64 [OF nn tot] stored_f64 [OF nn' tot'] a1 a2)
    show ?thesis
      using ne' by (simp add: interaction_matrix_def csr_matrix_def zip_triples f s)
  qed
  show ?thesis
    using M e p by blast
qed

theorem interaction_matrix_exact_sums_witness:
  "\<exists>M. interaction_matrix [(0, 0, F64 5), (1, 0, F64 3), (0, 0, F64 4)] = Inr M \<and>
        entry M 0 0 = F64 9 \<and>
        interaction_matrix [(0, 0, F64 4), (0, 0, F64 5), (1, 0, F64 3)] = Inr M"
proof -
  let ?ts = "[(0, 0, F64 5), (1, 0, F64 3), (0, 0, F64 4)] :: (nat \<times> nat \<times> f64) list"
  let ?ts' = "[(0, 0, F64 4), (0, 0, F64 5), (1, 0, F64 3)] :: (nat \<times> nat \<times> f64) list"
  have ne: "?ts \<noteq> []" by simp
  have nn: "\<forall>t \<in> set ?ts. 0 \<le> int_of (snd (snd t))" by simp
  have tot: "sum_list (map (\<lambda>t. int_of (snd (snd t))) ?ts) < 2 ^ 53" by simp
  obtain M where M: "interaction_matrix ?ts = Inr M"
    and e: "\<forall>i u. entry M i u = F64 (sum_list (map int_of (at_pos (i, u) ?ts)))"
    and p: "\<forall>ts'. mset ts' = mset ?ts \<longrightarrow> interaction_matrix ts' = Inr M"
    using interaction_matrix_exact_sums [OF ne nn tot] by blast
  have "entry M 0 0 = F64 (sum_list (map int_of (at_pos (0, 0) ?ts)))"
    using e by blast
  then have e9: "entry M 0 0 = F64 9"
    by (simp add: at_pos_def)
  have "mset ?ts' = mset ?ts" by simp
  then have "interaction_matrix ?ts' = Inr M"
    using p by blast
  then show ?thesis
    using M e9 by blast
qed

text \<open>
  C4 (as the specification words it) fails when an addition rounds: the three float64
  ratings \<open>1e16, 1, 1\<close> at one position add up to \<open>1e16\<close> in this order and to
  \<open>1e16 + 2\<close> in the order \<open>1, 1, 1e16\<close>, and neither is the sum of the ratings of a
  cell in both orders.
\<close>

lemma excess_bits_small: "n < 2 ^ 53 \<Longrightarrow> excess_bits n = 0"
  by (subst excess_bits.simps) simp

lemma excess_bits_next: "2 ^ 53 \<le> n \<Longrightarrow> n div 2 < 2 ^ 53 \<Longrightarrow> excess_bits n = 1"
  by (subst excess_bits.simps) (simp add: excess_bits_small)

lemma round53_examples:
  "round53 10000000000000001 = 10000000000000000"
  "round53 10000000000000002 = 10000000000000002"
  "round53 2 = 2"
proof -
  have a: "excess_bits 10000000000000001 = 1"
    by (rule excess_bits_next) simp_all
  have b: "excess_bits 10000000000000002 = 1"
    by (rule excess_bits_next) simp_all
  show "round53 10000000000000001 = 10000000000000000"
    by (simp add: round53_def a)
  show "round53 10000000000000002 = 10000000000000002"
    by (simp add: round53_def b)
  show "round53 2 = 2"
    by (rule round53_exact) simp
qed

theorem interaction_matrix_rounding_counterexample:
  "bind (interaction_matrix [(0, 0, F64 10000000000000000), (0, 0, F64 1), (0, 0, F64 1)])
     (\<lambda>M. Inr (entry M 0 0)) = Inr (F64 10000000000000000) \<and>
   bind (interaction_matrix [(0, 0, F64 1), (0, 0, F64 1), (0, 0, F64 10000000000000000)])
     (\<lambda>M. Inr (entry M 0 0)) = Inr (F64 10000000000000002) \<and>
   mset [(0 :: nat, 0 :: nat, F64 1), (0, 0, F64 1), (0, 0, F64 10000000000000000)] =
   mset [(0, 0, F64 10000000000000000), (0, 0, F64 1), (0, 0, F64 1)]"
  by (simp add: interaction_matrix_def csr_matrix_def entry_def add_entry_def bind_def
      plus_f64_def round53_examples)

section \<open>Cold start\<close>

lemma bind_Inr: "bind m f = Inr v \<Longrightarrow> \<exists>x. m = Inr x \<and> f x = Inr v"
  by (cases m) (auto simp: bind_def)

lemma fit_Inr:
  assumes "fit als_fit m df = Inr st"
  shows "df \<noteq> []"
    and "user_encoder st = LabelEncoder_fit (map user_id df)"
    and "item_encoder st = LabelEncoder_fit (map parent_asin df)"
    and "interaction_matrix (triples df) = Inr (item_user_data st)"
    and "shape (item_user_data st) =
           (length (classes (item_encoder st)), length (classes (user_encoder st)))"
    and "model st = m\<lparr>user_factors := user_factors (model st),
                        item_factors := item_factors (model st)\<rparr>"
proof -
  let ?items = "map (index_of (np_unique (map parent_asin df))) (map parent_asin df)"
  let ?users = "map (index_of (np_unique (map user_id df))) (map user_id df)"
  from assms obtain M where M: "csr_matrix (map rating df) ?items ?users = Inr M"
    and st: "\<exists>fs. st = \<lparr>model = m\<lparr>user_factors := fst fs, item_factors := snd fs\<rparr>,
              user_encoder = LabelEncoder_fit (map user_id df),
              item_encoder = LabelEncoder_fit (map parent_asin df), item_user_data = M\<rparr>"
    by (auto simp: fit_def fit_transform_def Let_def LabelEncoder_fit_def dest!: bind_Inr)
  show ne: "df \<noteq> []"
    using M by (auto simp: csr_matrix_def)
  show "user_encoder st = LabelEncoder_fit (map user_id df)"
    using st by auto
  show "item_encoder st = LabelEncoder_fit (map parent_asin df)"
    using st by auto
  have t: "interaction_matrix (triples df) = csr_matrix (map rating df) ?items ?users"
    by (simp add: interaction_matrix_def triples_def comp_def)
  show "interaction_matrix (triples df) = Inr (item_user_data st)"
    using st M t by auto
  show "model st = m\<lparr>user_factors := user_factors (model st),
                        item_factors := item_factors (model st)\<rparr>"
    using st by auto
  have "shape M = (Max (set ?items) + 1, Max (set ?users) + 1)"
    using M by (auto simp: csr_matrix_def split: if_splits)
  moreover have "Max (set ?items) + 1 = length (np_unique (map parent_asin df))"
    using ne by (intro Max_index_of) (simp_all add: np_unique_distinct np_unique_set)
  moreover have "Max (set ?users) + 1 = length (np_unique (map user_id df))"
    using ne by (intro Max_index_of) (simp_all add: np_unique_distinct np_unique_set)
  ultimately show "shape (item_user_data st) =
           (length (classes (item_encoder st)), length (classes (user_encoder st)))"
    using st by (auto simp: LabelEncoder_fit_def)
qed















lemmas ev = fit_def fit_transform_def LabelEncoder_fit_def np_unique_def
      csr_matrix_def entry_def recommend_def transform_def bind_def popular_def unpacked_def
      pairs_release_def row_sums_in_order_def row_values_def add_entry_def sorted_desc_def
      slice_to_def inverse_transform_def decode_item_def first_of_two_def upt_rec_numeral
      model_recommend_def liked_items_def getrow_def indices_def dot_def example_fit_def
      default_model_def RecommendationSystem_init_def takes_fallback_def one_row_check_def




section \<open>The fallback and the liked-items filter on known users\<close>

lemma fallback_taken:
  assumes "bind (transform (user_encoder st) [uid]) (\<lambda>idxs.
             als_recommend L (model st) (idxs ! 0) (item_user_data st) n True) = Inl ValueError"
  shows "takes_fallback L st uid n \<and>
         recommend L st uid n = decode (item_encoder st) (unpacked (popular L st n))"
  using assms by (simp add: takes_fallback_def recommend_def)

lemma popular_update: "popular (L\<lparr>als_recommend := r\<rparr>) st n = popular L st n"
  by (simp add: popular_def)

text \<open>
  C7 (the claim fails on the code).  The \<^verbatim>\<open>try\<close> block of \<^verbatim>\<open>recommend\<close> also covers the
  solver's call, so a \<^verbatim>\<open>ValueError\<close> raised there sends a known user to the branch the
  code comments as "For new users": whenever the solver's call raises \<^verbatim>\<open>ValueError\<close>
  for a user of the training table, the fallback is taken and the popularity list is
  returned.  This happens for a negative \<open>n\<close> with the releases that return pairs, and
  for every \<open>n\<close>, unless there is exactly one item, with the releases that check
  \<open>user_items\<close>.
\<close>

theorem recommend_fallback_for_known_user:
  assumes f: "fit als_fit m df = Inr st" and u: "uid \<in> set (map user_id df)"
  shows "(als_recommend L (model st) (index_of (classes (user_encoder st)) uid)
            (item_user_data st) n True = Inl ValueError \<longrightarrow>
          takes_fallback L st uid n \<and>
          recommend L st uid n = decode (item_encoder st) (unpacked (popular L st n))) \<and>
         (index_of (classes (user_encoder st)) uid < length (user_factors (model st)) \<and>
          index_of (classes (user_encoder st)) uid < length (classes (item_encoder st)) \<and>
          n < 0 \<longrightarrow>
          takes_fallback (L\<lparr>als_recommend := model_recommend\<rparr>) st uid n \<and>
          recommend (L\<lparr>als_recommend := model_recommend\<rparr>) st uid n =
            decode (item_encoder st) (unpacked (popular L st n))) \<and>
         (length (classes (item_encoder st)) \<noteq> 1 \<longrightarrow>
          takes_fallback (L\<lparr>als_recommend := one_row_check inner\<rparr>) st uid n \<and>
          recommend (L\<lparr>als_recommend := one_row_check inner\<rparr>) st uid n =
            decode (item_encoder st) (unpacked (popular L st n)))"
proof -
  let ?k = "index_of (classes (user_encoder st)) uid"
  have ue: "classes (user_encoder st) = np_unique (map user_id df)"
    using fit_Inr(2) [OF f] by (simp add: LabelEncoder_fit_def)
  have t: "transform (user_encoder st) [uid] = Inr [?k]"
    using u by (simp add: transform_def ue np_unique_set)
  have rows: "fst (shape (item_user_data st)) = length (classes (item_encoder st))"
    using fit_Inr(5) [OF f] by simp
  have A: "takes_fallback L st uid n \<and>
          recommend L st uid n = decode (item_encoder st) (unpacked (popular L st n))"
    if "als_recommend L (model st) ?k (item_user_data st) n True = Inl ValueError"
    using that by (intro fallback_taken) (simp add: t bind_def)
  have B: "takes_fallback (L\<lparr>als_recommend := model_recommend\<rparr>) st uid n \<and>
          recommend (L\<lparr>als_recommend := model_recommend\<rparr>) st uid n =
            decode (item_encoder st) (unpacked (popular L st n))"
    if k1: "?k < length (user_factors (model st))"
      and k2: "?k < length (classes (item_encoder st))" and n: "n < 0"
  proof -
    have "?k < fst (shape (item_user_data st))"
      using k2 rows by simp
    then have l: "liked_items (item_user_data st) ?k True =
        Inr (indices \<lparr>shape = (1, snd (shape (item_user_data st))),
              stored = (\<lambda>p. if fst p = 0 then stored (item_user_data st) (?k, snd p) else None)\<rparr>)"
      by (simp add: liked_items_def getrow_def bind_def)
    have "model_recommend (model st) ?k (item_user_data st) n True = Inl ValueError"
      using k1 n by (simp add: model_recommend_def l bind_def Let_def)
    then have "bind (transform (user_encoder st) [uid]) (\<lambda>idxs.
        als_recommend (L\<lparr>als_recommend := model_recommend\<rparr>) (model st) (idxs ! 0)
          (item_user_data st) n True) = Inl ValueError"
      by (simp add: t bind_def)
    from fallback_taken [OF this] show ?thesis
      by (simp add: popular_update)
  qed
  have C: "takes_fallback (L\<lparr>als_recommend := one_row_check inner\<rparr>) st uid n \<and>
          recommend (L\<lparr>als_recommend := one_row_check inner\<rparr>) st uid n =
            decode (item_encoder st) (unpacked (popular L st n))"
    if "length (classes (item_encoder st)) \<noteq> 1"
  proof -
    have "one_row_check inner (model st) ?k (item_user_data st) n True = Inl ValueError"
      using that rows by (simp add: one_row_check_def)
    then have "bind (transform (user_encoder st) [uid]) (\<lambda>idxs.
        als_recommend (L\<lparr>als_recommend := one_row_check inner\<rparr>) (model st) (idxs ! 0)
          (item_user_data st) n True) = Inl ValueError"
      by (simp add: t bind_def)
    from fallback_taken [OF this] show ?thesis
      by (simp add: popular_update)
  qed
  show ?thesis
    using A B C by blast
qed

theorem recommend_fallback_for_known_user_witness:
  "\<exists>st. fit example_fit default_model scenario = Inr st \<and> ''u1'' \<in> set (map user_id scenario) \<and>
     takes_fallback pairs_release st ''u1'' (- 1) \<and>
     recommend pairs_release st ''u1'' (- 1) = Inr [''i1'', ''i2''] \<and>
     takes_fallback (pairs_release\<lparr>als_recommend := one_row_check model_recommend\<rparr>) st ''u1'' 2 \<and>
     recommend (pairs_release\<lparr>als_recommend := one_row_check model_recommend\<rparr>) st ''u1'' 2 =
       Inr [''i1'', ''i2'']"
proof -
  obtain st where f: "fit example_fit default_model scenario = Inr st"
    by (simp add: scenario_def fit_def fit_transform_def LabelEncoder_fit_def np_unique_def
        csr_matrix_def bind_def example_fit_def)
  have u: "''u1'' \<in> set (map user_id scenario)"
    by (simp add: scenario_def)
  have "bind (fit example_fit default_model scenario) (\<lambda>st. Inr
         (index_of (classes (user_encoder st)) ''u1'' < length (user_factors (model st)) \<and>
          index_of (classes (user_encoder st)) ''u1'' < length (classes (item_encoder st)) \<and>
          length (classes (item_encoder st)) \<noteq> 1)) = Inr True"
    by (simp add: scenario_def fit_def fit_transform_def LabelEncoder_fit_def np_unique_def
        csr_matrix_def bind_def example_fit_def)
  then have k: "index_of (classes (user_encoder st)) ''u1'' < length (user_factors (model st))"
      "index_of (classes (user_encoder st)) ''u1'' < length (classes (item_encoder st))"
      "length (classes (item_encoder st)) \<noteq> 1"
    using f by (simp_all add: bind_def)
  have p: "pairs_release\<lparr>als_recommend := model_recommend\<rparr> = (pairs_release :: real library)"
    by (simp add: pairs_release_def)
  have fb: "takes_fallback pairs_release st ''u1'' (- 1)"
    using recommend_fallback_for_known_user [OF f u, of pairs_release "- 1"] k p by simp
  have fc: "takes_fallback (pairs_release\<lparr>als_recommend := one_row_check model_recommend\<rparr>) st ''u1'' 2"
    using recommend_fallback_for_known_user [OF f u, of pairs_release 2 model_recommend] k by blast
  have "bind (fit example_fit default_model scenario) (\<lambda>st. recommend pairs_release st ''u1'' (- 1)) =
      Inr [''i1'', ''i2'']"
    by (simp add: ev scenario_def)
  then have r1: "recommend pairs_release st ''u1'' (- 1) = Inr [''i1'', ''i2'']"
    using f by (simp add: bind_def)
  have "bind (fit example_fit default_model scenario) (\<lambda>st.
         recommend (pairs_release\<lparr>als_recommend := one_row_check model_recommend\<rparr>) st ''u1'' 2) =
      Inr [''i1'', ''i2'']"
    by (simp add: ev scenario_def)
  then have r2: "recommend (pairs_release\<lparr>als_recommend := one_row_check model_recommend\<rparr>) st ''u1'' 2 =
      Inr [''i1'', ''i2'']"
    using f by (simp add: bind_def)
  show ?thesis
    using f u fb fc r1 r2 by blast
qed

text \<open>
  C3 (the claim fails on the code).  \<^verbatim>\<open>recommend\<close> passes the item-by-user matrix where
  the solver looks up the liked items by user row.  Trained on the table where \<open>a\<close> and
  \<open>b\<close> share item \<open>x\<close> and \<open>b\<close> also has \<open>y\<close>, user \<open>b\<close> (index 1) has row 1 read, the
  row of item \<open>y\<close>, whose only stored column is 1: item \<open>y\<close> is excluded and \<open>x\<close>, which
  \<open>b\<close> has interacted with, is recommended, whatever the factors \<open>p, q, s, t\<close> are.  With
  two users and one item, the second user's row does not exist and \<^verbatim>\<open>IndexError\<close>
  reaches the caller.  With a release that checks \<open>user_items\<close>, the three-row matrix is
  refused and the popularity list, headed by \<open>x\<close>, is returned to \<open>b\<close>.
\<close>

theorem recommend_liked_filter_reads_item_row:
  "bind (fit (\<lambda>m M. Inr ([p, q], [s, t])) default_model shared_item)
     (\<lambda>st. recommend pairs_release st ''b'' 1) = Inr [''x''] \<and>
   \<lparr>user_id = ''b'', parent_asin = ''x'', rating = 1\<rparr> \<in> set shared_item \<and>
   bind (fit example_fit default_model one_item) (\<lambda>st. recommend pairs_release st ''b'' 1) =
     Inl IndexError \<and>
   bind (fit (\<lambda>m M. Inr ([p, q], [s, t])) default_model shared_item)
     (\<lambda>st. recommend (pairs_release\<lparr>als_recommend := one_row_check inner\<rparr>) st ''b'' 1) =
     Inr [''x'']"
  by (simp add: ev shared_item_def one_item_def)

section \<open>The held-out matrix\<close>






section \<open>The solver's configuration\<close>

lemma recommend_unseen_fallback:
  assumes f: "fit als_fit m df = Inr st" and u: "uid \<notin> set (map user_id df)"
  shows "recommend L st uid n = decode (item_encoder st) (unpacked (popular L st n))"
proof -
  have "classes (user_encoder st) = np_unique (map user_id df)"
    using fit_Inr(2) [OF f] by (simp add: LabelEncoder_fit_def)
  then have "transform (user_encoder st) [uid] = Inl ValueError"
    using u by (simp add: transform_def np_unique_set)
  then show ?thesis
    by (simp add: recommend_def bind_def)
qed

text \<open>
  C8 (as the code has it).  The solver is configured by \<open>factors\<close>, \<open>regularization\<close>,
  \<open>alpha\<close> and \<open>iterations\<close> only, with the defaults 100, 0.01, 1.0 and 50, and is
  given no seed; fitting keeps this configuration.  Two fits of the same table with the
  same options agree on the encoders and on the interaction matrix, hence on the list of
  every unseen user, whatever factors the two solver runs return; when the two runs
  return the same user and item factor matrices, the two fitted systems are the same
  and give the same list for every user and every \<open>n\<close>.
\<close>

theorem fit_without_seed:
  assumes f1: "fit solve1 (RecommendationSystem_init f r a n) df = Inr st1"
    and f2: "fit solve2 (RecommendationSystem_init f r a n) df = Inr st2"
  shows "(factors (model st1) = f \<and> regularization (model st1) = r \<and>
          alpha (model st1) = a \<and> iterations (model st1) = n \<and>
          random_state (model st1) = None) \<and>
         default_model = RecommendationSystem_init 100 (1 / 100) 1 50 \<and>
         user_encoder st1 = user_encoder st2 \<and>
         item_encoder st1 = item_encoder st2 \<and>
         item_user_data st1 = item_user_data st2 \<and>
         (uid \<notin> set (map user_id df) \<longrightarrow> recommend L st1 uid k = recommend L st2 uid k) \<and>
         (user_factors (model st1) = user_factors (model st2) \<and>
          item_factors (model st1) = item_factors (model st2) \<longrightarrow>
            st1 = st2 \<and> (\<forall>uid k. recommend L st1 uid k = recommend L st2 uid k))"
proof -
  note a = fit_Inr [OF f1] and b = fit_Inr [OF f2]
  have o: "factors (model st1) = f \<and> regularization (model st1) = r \<and>
          alpha (model st1) = a \<and> iterations (model st1) = n \<and>
          random_state (model st1) = None"
    by (subst a(6), subst a(6), subst a(6), subst a(6), subst a(6))
      (simp add: RecommendationSystem_init_def)
  have d: "default_model = RecommendationSystem_init 100 (1 / 100) 1 50"
    by (rule default_model_def)
  have u: "user_encoder st1 = user_encoder st2" using a(2) b(2) by simp
  have i: "item_encoder st1 = item_encoder st2" using a(3) b(3) by simp
  have m: "item_user_data st1 = item_user_data st2" using a(4) b(4) by simp
  have c: "recommend L st1 uid k = recommend L st2 uid k" if "uid \<notin> set (map user_id df)"
    using recommend_unseen_fallback [OF f1 that] recommend_unseen_fallback [OF f2 that] i m
    by (simp add: popular_def)
  have e: "st1 = st2 \<and> (\<forall>uid k. recommend L st1 uid k = recommend L st2 uid k)"
    if "user_factors (model st1) = user_factors (model st2) \<and>
        item_factors (model st1) = item_factors (model st2)"
  proof -
    have "model st1 = model st2"
      by (subst a(6), subst b(6)) (simp add: that)
    then have "st1 = st2"
      using u i m by simp
    then show ?thesis by simp
  qed
  show ?thesis
    using o d u i m c e by blast
qed

theorem fit_without_seed_witness:
  "\<exists>st1 st2. fit example_fit (RecommendationSystem_init 100 (1 / 100) 1 50) scenario = Inr st1 \<and>
     fit second_fit (RecommendationSystem_init 100 (1 / 100) 1 50) scenario = Inr st2 \<and>
     item_user_data st1 = item_user_data st2 \<and>
     random_state (model st1) = None \<and>
     recommend pairs_release st1 ''new_user'' 2 = recommend pairs_release st2 ''new_user'' 2"
proof -
  obtain st1 where f1: "fit example_fit (RecommendationSystem_init 100 (1 / 100) 1 50) scenario = Inr st1"
    by (simp add: scenario_def fit_def fit_transform_def LabelEncoder_fit_def np_unique_def
        csr_matrix_def bind_def example_fit_def)
  obtain st2 where f2: "fit second_fit (RecommendationSystem_init 100 (1 / 100) 1 50) scenario = Inr st2"
    by (simp add: scenario_def fit_def fit_transform_def LabelEncoder_fit_def np_unique_def
        csr_matrix_def bind_def second_fit_def)
  have u: "''new_user'' \<notin> set (map user_id scenario)"
    by (simp add: scenario_def)
  show ?thesis
    using fit_without_seed [OF f1 f2, of "''new_user''" pairs_release 2] f1 f2 u by blast
qed

text \<open>
  C8 (as the specification words it) fails: the solver that \<^verbatim>\<open>__init__\<close> builds has no
  seed, and two fits of the scenario with the same options, in two runs of the solver,
  end with different factor matrices.
\<close>

theorem no_seed_counterexample:
  "random_state (RecommendationSystem_init 100 (1 / 100) 1 50) = None \<and>
   bind (fit example_fit (RecommendationSystem_init 100 (1 / 100) 1 50) scenario)
     (\<lambda>st. Inr (item_factors (model st))) = Inr [[1], [1], [1]] \<and>
   bind (fit second_fit (RecommendationSystem_init 100 (1 / 100) 1 50) scenario)
     (\<lambda>st. Inr (item_factors (model st))) = Inr [[2], [2], [2]]"
  by (simp add: ev second_fit_def scenario_def numeral_3_eq_3)

section \<open>evaluate_model\<close>

lemma test_user_item_unknown_user:
  assumes "r \<in> set test_df" "user_id r \<notin> set (classes (user_encoder st))"
  shows "test_user_item st test_df = Inl ValueError"
proof -
  have "\<not> set (map user_id test_df) \<subseteq> set (classes (user_encoder st))"
    using assms by auto
  then show ?thesis
    by (simp add: test_user_item_def transform_def bind_def)
qed

lemma evaluate_model_unknown_user:
  assumes "r \<in> set test_df" "user_id r \<notin> set (classes (user_encoder st))"
  shows "evaluate_model P A G L st test_df k = Inl ValueError"
  using test_user_item_unknown_user [OF assms]
  by (simp add: evaluate_model_def metric_inputs_def bind_def)

text \<open>
  C10.  When a held-out row carries a user absent from the training table,
  \<^verbatim>\<open>evaluate_model\<close> raises \<^verbatim>\<open>ValueError\<close> and returns no report; \<^verbatim>\<open>filter_seen_items\<close>
  keeps such a row whenever its item was seen in training, so the filtered table raises
  as well.
\<close>

theorem evaluate_model_raises_on_unseen_user:
  assumes f: "fit als_fit m train_df = Inr st"
    and r: "r \<in> set test_df" and u: "user_id r \<notin> set (map user_id train_df)"
  shows "evaluate_model P A G L st test_df k = Inl ValueError \<and>
         (parent_asin r \<in> set (map parent_asin train_df) \<longrightarrow>
            r \<in> set (filter_seen_items train_df test_df) \<and>
            evaluate_model P A G L st (filter_seen_items train_df test_df) k = Inl ValueError)"
proof -
  have cl: "set (classes (user_encoder st)) = set (map user_id train_df)"
    using fit_Inr(2) [OF f] by (simp add: LabelEncoder_fit_def np_unique_set)
  then have u': "user_id r \<notin> set (classes (user_encoder st))"
    using u by simp
  have 1: "evaluate_model P A G L st test_df k = Inl ValueError"
    by (rule evaluate_model_unknown_user [OF r u'])
  have 2: "r \<in> set (filter_seen_items train_df test_df) \<and>
           evaluate_model P A G L st (filter_seen_items train_df test_df) k = Inl ValueError"
    if s: "parent_asin r \<in> set (map parent_asin train_df)"
  proof -
    have k: "r \<in> set (filter_seen_items train_df test_df)"
      using r s by (simp add: filter_seen_items_def)
    then show ?thesis
      using evaluate_model_unknown_user [OF k u'] by simp
  qed
  show ?thesis
    using 1 2 by blast
qed

lemmas ev_ids = ev scenario_ids_def scenario_def

theorem evaluate_model_raises_on_unseen_user_witness:
  "\<exists>st. fit example_fit default_model scenario_ids = Inr st \<and>
     filter_seen_items scenario_ids heldout_ids =
       [\<lparr>user_id = ''u1'', parent_asin = StrId ''i3'', rating = 1\<rparr>,
        \<lparr>user_id = ''u9'', parent_asin = StrId ''i1'', rating = 4\<rparr>] \<and>
     evaluate_model no_metric no_metric no_metric pairs_release st (filter_seen_items scenario_ids heldout_ids) 10 =
       Inl ValueError"
proof -
  let ?r = "\<lparr>user_id = ''u9'', parent_asin = StrId ''i1'', rating = 4 :: real\<rparr>"
  obtain st where f: "fit example_fit default_model scenario_ids = Inr st"
    by (simp add: scenario_ids_def scenario_def fit_def fit_transform_def LabelEncoder_fit_def
        np_unique_def csr_matrix_def bind_def example_fit_def)
  have r: "?r \<in> set heldout_ids"
    by (simp add: heldout_ids_def)
  have u: "user_id ?r \<notin> set (map user_id scenario_ids)"
    by (simp add: scenario_ids_def scenario_def)
  have s: "parent_asin ?r \<in> set (map parent_asin scenario_ids)"
    by (simp add: scenario_ids_def scenario_def)
  have "evaluate_model no_metric no_metric no_metric pairs_release st (filter_seen_items scenario_ids heldout_ids) 10 =
       Inl ValueError"
    using evaluate_model_raises_on_unseen_user [OF f r u, of no_metric no_metric no_metric pairs_release 10] s
    by blast
  moreover have "filter_seen_items scenario_ids heldout_ids =
       [\<lparr>user_id = ''u1'', parent_asin = StrId ''i3'', rating = 1\<rparr>, ?r]"
    by (simp add: filter_seen_items_def scenario_ids_def scenario_def heldout_ids_def)
  ultimately show ?thesis
    using f by blast
qed

lemma recommendation_id_handed: "recommendation_id enc item = Inr (handed enc item)"
  by (simp add: recommendation_id_def handed_def transform_def bind_def split: option.splits)

lemma sequence_Inr: "sequence (map (\<lambda>x. Inr (g x)) xs) = Inr (map g xs)"
  by (induction xs) (simp_all add: bind_def)

lemma all_recommendations_ids_handed:
  "all_recommendations_ids enc recs = Inr (map (map (handed enc)) recs)"
proof -
  have "(\<lambda>user_recs. sequence (map (recommendation_id enc) user_recs)) =
        (\<lambda>user_recs. Inr (map (handed enc) user_recs))"
    by (rule ext) (simp add: recommendation_id_handed [abs_def] sequence_Inr)
  then show ?thesis
    by (simp add: all_recommendations_ids_def sequence_Inr)
qed

lemma handed_strings:
  assumes "set (classes enc) \<subseteq> range StrId"
  shows "handed enc item = - 1"
proof (cases "as_ident item")
  case None
  then show ?thesis by (simp add: handed_def)
next
  case (Some c)
  then obtain i where "c = IntId i"
    by (cases item) (auto split: if_splits)
  then have "c \<notin> set (classes enc)"
    using assms by auto
  then show ?thesis using Some by (simp add: handed_def)
qed

lemma handed_member:
  "handed enc item \<noteq> - 1 \<Longrightarrow> \<exists>c \<in> set (classes enc). as_ident item = Some c"
  by (auto simp: handed_def split: option.splits if_splits)

text \<open>
  C9.  Once the held-out matrix, the encoded users and the unpacked recommendations of
  \<^verbatim>\<open>evaluate_model\<close> exist, the three metric functions are called with the converted
  lists: every recommended number is replaced by \<open>-1\<close> unless it is equal to a raw item
  identifier of the vocabulary (then by the index of that identifier), and for a system
  trained on a table whose item identifiers are strings every entry handed over is \<open>-1\<close>.
\<close>

theorem metric_inputs_item_ids:
  assumes t: "test_user_item st test_df = Inr T"
    and x: "transform (user_encoder st) (unique (map user_id test_df)) = Inr user_idxs"
    and r: "all_recommendations L st k (unique (map user_id test_df)) = Inr recs"
  shows "metric_inputs L st test_df k =
           Inr (T, map (map (handed (item_encoder st))) recs, user_idxs) \<and>
         evaluate_model P A G L st test_df k =
           bind (P T (map (map (handed (item_encoder st))) recs) user_idxs k) (\<lambda>p.
           bind (A T (map (map (handed (item_encoder st))) recs) user_idxs k) (\<lambda>m.
           bind (G T (map (map (handed (item_encoder st))) recs) user_idxs k) (\<lambda>g.
             Inr \<lparr>precision = p, map_score = m, ndcg = g\<rparr>))) \<and>
         (\<forall>item. handed (item_encoder st) item \<noteq> - 1 \<longrightarrow>
            (\<exists>c \<in> set (classes (item_encoder st)). as_ident item = Some c)) \<and>
         (\<forall>d als_fit m. fit als_fit m d = Inr st \<and> set (map parent_asin d) \<subseteq> range StrId \<longrightarrow>
            list_all (list_all (\<lambda>x. x = - 1)) (map (map (handed (item_encoder st))) recs))"
proof -
  let ?ids = "map (map (handed (item_encoder st))) recs"
  have mi: "metric_inputs L st test_df k = Inr (T, ?ids, user_idxs)"
    by (simp add: metric_inputs_def t x r all_recommendations_ids_handed bind_def)
  have em: "evaluate_model P A G L st test_df k =
           bind (P T ?ids user_idxs k) (\<lambda>p.
           bind (A T ?ids user_idxs k) (\<lambda>m.
           bind (G T ?ids user_idxs k) (\<lambda>g.
             Inr \<lparr>precision = p, map_score = m, ndcg = g\<rparr>)))"
    by (simp add: evaluate_model_def mi) (simp add: bind_def)
  have mem: "\<forall>item. handed (item_encoder st) item \<noteq> - 1 \<longrightarrow>
            (\<exists>c \<in> set (classes (item_encoder st)). as_ident item = Some c)"
    using handed_member by blast
  have "list_all (list_all (\<lambda>x. x = - 1)) ?ids"
    if f: "fit als_fit m d = Inr st" and s: "set (map parent_asin d) \<subseteq> range StrId"
    for d als_fit m
  proof -
    have "set (classes (item_encoder st)) \<subseteq> range StrId"
      using fit_Inr(3) [OF f] s by (simp add: LabelEncoder_fit_def np_unique_set)
    then show ?thesis
      by (simp add: list_all_iff handed_strings)
  qed
  then show ?thesis
    using mi em mem by blast
qed

theorem metric_inputs_item_ids_witness:
  "\<exists>st T. fit example_fit default_model scenario_ids = Inr st \<and>
     set (map parent_asin scenario_ids) \<subseteq> range StrId \<and>
     metric_inputs pairs_release st heldout_seen 2 = Inr (T, [[- 1, - 1]], [0]) \<and>
     evaluate_model no_metric no_metric no_metric pairs_release st heldout_seen 2 =
       Inr \<lparr>precision = 0, map_score = 0, ndcg = 0\<rparr>"
proof -
  obtain st where f: "fit example_fit default_model scenario_ids = Inr st"
    by (simp add: scenario_ids_def scenario_def fit_def fit_transform_def LabelEncoder_fit_def
        np_unique_def csr_matrix_def bind_def example_fit_def)
  have s: "set (map parent_asin scenario_ids) \<subseteq> range StrId"
    by (auto simp: scenario_ids_def scenario_def)
  have "bind (fit example_fit default_model scenario_ids) (\<lambda>st.
          bind (test_user_item st heldout_seen) (\<lambda>T. Inr (shape T))) = Inr (1, 3)"
    by (simp add: ev_ids heldout_seen_def test_user_item_def)
  then obtain T where t: "test_user_item st heldout_seen = Inr T"
    using f by (auto simp: bind_def split: sum.splits)
  have "bind (fit example_fit default_model scenario_ids) (\<lambda>st.
          transform (user_encoder st) (unique (map user_id heldout_seen))) = Inr [0]"
    by (simp add: ev_ids heldout_seen_def unique_def)
  then have x: "transform (user_encoder st) (unique (map user_id heldout_seen)) = Inr [0]"
    using f by (simp add: bind_def)
  have "bind (fit example_fit default_model scenario_ids) (\<lambda>st.
          all_recommendations pairs_release st 2 (unique (map user_id heldout_seen))) =
        Inr [[IntVal 0, IntVal 1]]"
    by (simp add: ev_ids heldout_seen_def unique_def)
  then have r: "all_recommendations pairs_release st 2 (unique (map user_id heldout_seen)) =
        Inr [[IntVal 0, IntVal 1]]"
    using f by (simp add: bind_def)
  note res = metric_inputs_item_ids [OF t x r, of no_metric no_metric no_metric]
  have all: "list_all (list_all (\<lambda>x. x = - 1))
      (map (map (handed (item_encoder st))) [[IntVal 0, IntVal 1]])"
    using res f s by blast
  then have ids: "map (map (handed (item_encoder st))) [[IntVal 0, IntVal 1]] = [[- 1, - 1]]"
    by simp
  have mi: "metric_inputs pairs_release st heldout_seen 2 = Inr (T, [[- 1, - 1]], [0])"
    using res ids by simp
  have "evaluate_model no_metric no_metric no_metric pairs_release st heldout_seen 2 =
       Inr \<lparr>precision = 0, map_score = 0, ndcg = 0\<rparr>"
    using res ids by (simp add: no_metric_def bind_def)
  then show ?thesis
    using f s mi by blast
qed

end
